theory Spec2Isabelle
  imports Complex_Main
begin

section \<open>The block's attributes (edit.tsx, interface BlockAttributes)\<close>

text \<open>
  The block is configured by ten attributes. The editor component \<open>Edit\<close> of edit.tsx
  shows them in a settings panel and in a live preview; the template render.php prints
  them as markup on the published page.

  A number of the source is a JavaScript or JSON number. The code never calculates with
  one: it stores numbers, hands them on and prints them. Numbers are modelled as
  rationals, which include every finite double; how a runtime prints a number is a
  parameter of the two render functions below.
\<close>

datatype alignment = Left | Center | Right

fun alignment_str :: "alignment \<Rightarrow> string" where
  "alignment_str Left = ''left''"
| "alignment_str Center = ''center''"
| "alignment_str Right = ''right''"

text \<open>
  The four sides of the padding; \<open>top_side\<close> is the source's \<open>top\<close>, renamed because
  \<open>top\<close> is the greatest element of a lattice in HOL.
\<close>

record Padding =
  top_side :: rat
  bottom :: rat
  left :: rat
  right :: rat

record BlockAttributes =
  title :: string
  showTitle :: bool
  titleTextColor :: string
  titleFontSize :: rat
  content :: string
  contentTextColor :: string
  contentFontSize :: rat
  backgroundColor :: string
  padding :: Padding
  alignment :: alignment

definition blockClassName :: string where
  "blockClassName = ''test-block''"

section \<open>The editor's update callbacks (edit.tsx, the onChange props)\<close>

text \<open>
  Every callback calls \<open>setAttributes\<close> with an object of one key; the host merges that
  key into the attributes and renders again. A callback is modelled by the attribute set
  that results. The value of a range control may be undefined (\<open>None\<close>); the padding
  callbacks replace an undefined value by 0 (\<open>value ?? 0\<close>), and build the new padding
  from a copy of the current one (\<open>{ ...padding, top: ... }\<close>). The other callbacks
  hand their value on as it is; they are modelled at the values of the type that
  BlockAttributes declares for their field.
\<close>

definition nullish :: "'a option \<Rightarrow> 'a \<Rightarrow> 'a" where
  "nullish v d = (case v of None \<Rightarrow> d | Some x \<Rightarrow> x)"

definition onChange_showTitle :: "bool \<Rightarrow> BlockAttributes \<Rightarrow> BlockAttributes" where
  "onChange_showTitle v a = a\<lparr>showTitle := v\<rparr>"

definition onChange_titleFontSize :: "rat \<Rightarrow> BlockAttributes \<Rightarrow> BlockAttributes" where
  "onChange_titleFontSize v a = a\<lparr>titleFontSize := v\<rparr>"

definition onChange_contentFontSize :: "rat \<Rightarrow> BlockAttributes \<Rightarrow> BlockAttributes" where
  "onChange_contentFontSize v a = a\<lparr>contentFontSize := v\<rparr>"

definition onChange_contentTextColor :: "string \<Rightarrow> BlockAttributes \<Rightarrow> BlockAttributes" where
  "onChange_contentTextColor v a = a\<lparr>contentTextColor := v\<rparr>"

definition onChange_padding_top :: "rat option \<Rightarrow> BlockAttributes \<Rightarrow> BlockAttributes" where
  "onChange_padding_top v a = a\<lparr>padding := (padding a)\<lparr>top_side := nullish v 0\<rparr>\<rparr>"

definition onChange_padding_bottom :: "rat option \<Rightarrow> BlockAttributes \<Rightarrow> BlockAttributes" where
  "onChange_padding_bottom v a = a\<lparr>padding := (padding a)\<lparr>bottom := nullish v 0\<rparr>\<rparr>"

definition onChange_padding_left :: "rat option \<Rightarrow> BlockAttributes \<Rightarrow> BlockAttributes" where
  "onChange_padding_left v a = a\<lparr>padding := (padding a)\<lparr>left := nullish v 0\<rparr>\<rparr>"

definition onChange_padding_right :: "rat option \<Rightarrow> BlockAttributes \<Rightarrow> BlockAttributes" where
  "onChange_padding_right v a = a\<lparr>padding := (padding a)\<lparr>right := nullish v 0\<rparr>\<rparr>"

definition onChange_backgroundColor :: "string \<Rightarrow> BlockAttributes \<Rightarrow> BlockAttributes" where
  "onChange_backgroundColor v a = a\<lparr>backgroundColor := v\<rparr>"

definition onChange_titleTextColor :: "string \<Rightarrow> BlockAttributes \<Rightarrow> BlockAttributes" where
  "onChange_titleTextColor v a = a\<lparr>titleTextColor := v\<rparr>"

definition onChange_title :: "string \<Rightarrow> BlockAttributes \<Rightarrow> BlockAttributes" where
  "onChange_title v a = a\<lparr>title := v\<rparr>"

definition onChange_content :: "string \<Rightarrow> BlockAttributes \<Rightarrow> BlockAttributes" where
  "onChange_content v a = a\<lparr>content := v\<rparr>"

section \<open>The editor's output (edit.tsx, the value Edit returns)\<close>

text \<open>
  The settings panel is a list of controls. Each is paired with the attribute that its
  \<open>onChange\<close> sets: a field of BlockAttributes, a padding side counted as a field of its
  own.
\<close>

datatype field =
    F_title | F_showTitle | F_titleTextColor | F_titleFontSize
  | F_content | F_contentTextColor | F_contentFontSize | F_backgroundColor
  | F_padding_top | F_padding_bottom | F_padding_left | F_padding_right
  | F_alignment

text \<open>
  \<open>ToggleControl label checked\<close>, \<open>RangeControl label value min max\<close>,
  \<open>SelectControl label value options\<close> (an option is a label and a value), and
  \<open>ColorSetting label value\<close>, an entry of the \<open>colorSettings\<close> of PanelColorSettings.
\<close>

datatype control =
    ToggleControl string bool
  | RangeControl string rat rat rat
  | SelectControl string string "(string \<times> string) list"
  | ColorSetting string string

record SectionStyle =
  style_padding :: string
  style_alignItems :: string
  style_backgroundColor :: string

record TextStyle =
  style_color :: string
  style_fontSize :: string

record RichText =
  tagName :: string
  className :: string
  rich_value :: string
  rich_style :: TextStyle

record Section =
  blockProps :: string
  section_style :: SectionStyle
  section_title :: "RichText option"
  section_content :: RichText

record EditOutput =
  inspector :: "(field \<times> control) list"
  preview :: Section

text \<open>
  \<open>InspectorControls\<close>: the controls of the panel "Block Settings" in the order of the
  source, followed by the three entries of "Color Settings". The range control of the
  title's font size is there only when \<open>showTitle\<close> holds (\<open>showTitle && ...\<close>).
  A label is the text that the source hands to the translation function \<open>__\<close>.
\<close>

definition InspectorControls :: "BlockAttributes \<Rightarrow> (field \<times> control) list" where
  "InspectorControls a =
     [(F_showTitle, ToggleControl ''Show Title'' (showTitle a))]
     @ (if showTitle a
        then [(F_titleFontSize, RangeControl ''Title Font Size (rem)'' (titleFontSize a) 0.1 5)]
        else [])
     @ [(F_contentFontSize, RangeControl ''Content Font Size'' (contentFontSize a) 0.1 20),
        (F_contentTextColor, SelectControl ''Content Text Color'' (contentTextColor a)
           [(''Black'', ''#000000''), (''White'', ''#ffffff''), (''Gray'', ''#808080'')]),
        (F_padding_top, RangeControl ''Padding Top (rem)'' (top_side (padding a)) 0 10),
        (F_padding_bottom, RangeControl ''Padding Bottom (rem)'' (bottom (padding a)) 0 10),
        (F_padding_left, RangeControl ''Padding Left (rem)'' (left (padding a)) 0 10),
        (F_padding_right, RangeControl ''Padding Right (rem)'' (right (padding a)) 0 10),
        (F_backgroundColor, ColorSetting ''Background Color'' (backgroundColor a)),
        (F_titleTextColor, ColorSetting ''Title Color'' (titleTextColor a)),
        (F_contentTextColor, ColorSetting ''Content Color'' (contentTextColor a))]"

text \<open>
  The preview: a section holding the title (only when \<open>showTitle\<close> holds) and the
  content. \<open>toString\<close> is what a template literal makes of a number.
\<close>

definition Edit :: "(rat \<Rightarrow> string) \<Rightarrow> BlockAttributes \<Rightarrow> EditOutput" where
  "Edit toString a =
     \<lparr>inspector = InspectorControls a,
      preview =
        \<lparr>blockProps = blockClassName,
         section_style =
           \<lparr>style_padding =
              toString (top_side (padding a)) @ ''rem '' @ toString (right (padding a)) @ ''rem ''
              @ toString (bottom (padding a)) @ ''rem '' @ toString (left (padding a)) @ ''rem'',
            style_alignItems = alignment_str (alignment a),
            style_backgroundColor = backgroundColor a\<rparr>,
         section_title =
           (if showTitle a
            then Some \<lparr>tagName = ''h2'', className = blockClassName @ ''__title'',
                        rich_value = title a,
                        rich_style = \<lparr>style_color = titleTextColor a,
                                      style_fontSize = toString (titleFontSize a) @ ''rem''\<rparr>\<rparr>
            else None),
         section_content =
           \<lparr>tagName = ''p'', className = blockClassName @ ''__content'',
            rich_value = content a,
            rich_style = \<lparr>style_color = contentTextColor a,
                          style_fontSize = toString (contentFontSize a) @ ''rem''\<rparr>\<rparr>\<rparr>\<rparr>"

section \<open>The server-side template (render.php)\<close>

text \<open>
  render.php receives the array \<open>$attributes\<close>. A key may be unset or null, which
  \<open>??\<close> treats alike: \<open>None\<close>. The field \<open>k_key\<close> stands for \<open>$attributes['k']\<close>; the
  values have the types of the block's schema. The template reads the key
  \<open>contentColor\<close>; the key \<open>contentTextColor\<close>, which the editor writes, is not read.
\<close>

record padding_array =
  top_key :: "rat option"
  bottom_key :: "rat option"
  left_key :: "rat option"
  right_key :: "rat option"

record attributes =
  title_key :: "string option"
  showTitle_key :: "bool option"
  titleTextColor_key :: "string option"
  titleFontSize_key :: "rat option"
  content_key :: "string option"
  contentTextColor_key :: "string option"
  contentColor_key :: "string option"
  contentFontSize_key :: "rat option"
  backgroundColor_key :: "string option"
  padding_key :: "padding_array option"
  alignment_key :: "string option"

text \<open>
  The variables that lines 15 to 31 assign; \<open>title_var\<close>, \<open>content_var\<close>, \<open>padding_var\<close>
  and \<open>alignment_var\<close> are \<open>$title\<close>, \<open>$content\<close>, \<open>$padding\<close> and \<open>$alignment\<close>.
\<close>

record variables =
  title_var :: string
  show_title :: bool
  title_color :: string
  title_size :: rat
  content_var :: string
  content_color :: string
  content_size :: rat
  background_color :: string
  padding_var :: padding_array
  alignment_var :: string

definition attributes_with_defaults :: "attributes \<Rightarrow> variables" where
  "attributes_with_defaults a =
     \<lparr>title_var = nullish (title_key a) ''Block Title'',
      show_title = nullish (showTitle_key a) True,
      title_color = nullish (titleTextColor_key a) ''#1a202c'',
      title_size = nullish (titleFontSize_key a) 3,
      content_var = nullish (content_key a) ''Add your content here...'',
      content_color = nullish (contentColor_key a) ''#4a5568'',
      content_size = nullish (contentFontSize_key a) 1,
      background_color = nullish (backgroundColor_key a) ''#ffffff'',
      padding_var = nullish (padding_key a)
         \<lparr>top_key = Some 2, bottom_key = Some 2, left_key = Some 2, right_key = Some 2\<rparr>,
      alignment_var = nullish (alignment_key a) ''center''\<rparr>"

text \<open>
  The functions of the host that the template calls: the conversion of a number to a
  string, \<open>esc_attr\<close>, \<open>esc_html\<close>, and \<open>get_block_wrapper_attributes\<close>, here a function of
  the class it is given.
\<close>

record wordpress =
  strval :: "rat \<Rightarrow> string"
  esc_attr :: "string \<Rightarrow> string"
  esc_html :: "string \<Rightarrow> string"
  get_block_wrapper_attributes :: "string \<Rightarrow> string"

text \<open>
  Reading a key that a PHP array lacks gives null (and a warning), and null as a string
  is the empty string.
\<close>

definition side_str :: "wordpress \<Rightarrow> rat option \<Rightarrow> string" where
  "side_str wp v = (case v of None \<Rightarrow> [] | Some n \<Rightarrow> strval wp n)"

text \<open>
  The values that the template writes into the three style attributes, each passed
  through \<open>esc_attr\<close>.
\<close>

definition php_section_style :: "wordpress \<Rightarrow> variables \<Rightarrow> SectionStyle" where
  "php_section_style wp v =
     \<lparr>style_padding =
        esc_attr wp (side_str wp (top_key (padding_var v))) @ ''rem ''
        @ esc_attr wp (side_str wp (right_key (padding_var v))) @ ''rem ''
        @ esc_attr wp (side_str wp (bottom_key (padding_var v))) @ ''rem ''
        @ esc_attr wp (side_str wp (left_key (padding_var v))) @ ''rem'',
      style_alignItems = esc_attr wp (alignment_var v),
      style_backgroundColor = esc_attr wp (background_color v)\<rparr>"

definition php_title_style :: "wordpress \<Rightarrow> variables \<Rightarrow> TextStyle" where
  "php_title_style wp v =
     \<lparr>style_color = esc_attr wp (title_color v),
      style_fontSize = esc_attr wp (strval wp (title_size v)) @ ''rem''\<rparr>"

definition php_content_style :: "wordpress \<Rightarrow> variables \<Rightarrow> TextStyle" where
  "php_content_style wp v =
     \<lparr>style_color = esc_attr wp (content_color v),
      style_fontSize = esc_attr wp (strval wp (content_size v)) @ ''rem''\<rparr>"

text \<open>The text of a style attribute, as lines 34 to 36 lay it out.\<close>

definition section_css :: "SectionStyle \<Rightarrow> string" where
  "section_css s =
     ''padding: '' @ style_padding s @ ''; background-color: '' @ style_backgroundColor s
     @ ''; align-items: '' @ style_alignItems s @ '';''"

definition text_css :: "TextStyle \<Rightarrow> string" where
  "text_css s = ''color: '' @ style_color s @ ''; font-size: '' @ style_fontSize s @ '';''"

definition dquote :: string where
  "dquote = [CHR 0x22]"

definition newline :: string where
  "newline = [CHR 0x0A]"

text \<open>
  Lines 33 to 37: the output of the template, from the empty line after the closing tag
  of the PHP block to \<open></section>\<close>. The heading is printed whatever \<open>$show_title\<close> is:
  the template never reads that variable.
\<close>

definition template :: "wordpress \<Rightarrow> variables \<Rightarrow> string" where
  "template wp v =
     newline
     @ ''<section '' @ get_block_wrapper_attributes wp ''test-block''
     @ '' style='' @ dquote @ section_css (php_section_style wp v) @ dquote @ ''>'' @ newline
     @ ''    <h2 style='' @ dquote @ text_css (php_title_style wp v) @ dquote @ ''>''
     @ esc_html wp (title_var v) @ ''</h2>'' @ newline
     @ ''    <p style='' @ dquote @ text_css (php_content_style wp v) @ dquote @ ''>''
     @ esc_html wp (content_var v) @ ''</p>'' @ newline
     @ ''</section>''"

definition render_php :: "wordpress \<Rightarrow> attributes \<Rightarrow> string" where
  "render_php wp a = template wp (attributes_with_defaults a)"

text \<open>
  What the host hands to render.php for a block whose attribute set is \<open>A\<close>: every
  attribute under its own key. No attribute is called \<open>contentColor\<close>, so that key is
  unset.
\<close>

definition saved_attributes :: "BlockAttributes \<Rightarrow> attributes" where
  "saved_attributes A =
     \<lparr>title_key = Some (title A),
      showTitle_key = Some (showTitle A),
      titleTextColor_key = Some (titleTextColor A),
      titleFontSize_key = Some (titleFontSize A),
      content_key = Some (content A),
      contentTextColor_key = Some (contentTextColor A),
      contentColor_key = None,
      contentFontSize_key = Some (contentFontSize A),
      backgroundColor_key = Some (backgroundColor A),
      padding_key = Some \<lparr>top_key = Some (top_side (padding A)),
                           bottom_key = Some (bottom (padding A)),
                           left_key = Some (left (padding A)),
                           right_key = Some (right (padding A))\<rparr>,
      alignment_key = Some (alignment_str (alignment A))\<rparr>"

section \<open>Derived views of the two outputs\<close>

text \<open>
  The styles of the container, the title and the content that a render computes. The
  editor's preview has a title only when \<open>showTitle\<close> holds; the template prints its
  heading always.
\<close>

record ComputedStyles =
  container_style :: SectionStyle
  title_style :: "TextStyle option"
  content_style :: TextStyle

definition editable_styles :: "(rat \<Rightarrow> string) \<Rightarrow> BlockAttributes \<Rightarrow> ComputedStyles" where
  "editable_styles toString A =
     \<lparr>container_style = section_style (preview (Edit toString A)),
      title_style = map_option rich_style (section_title (preview (Edit toString A))),
      content_style = rich_style (section_content (preview (Edit toString A)))\<rparr>"

definition static_styles :: "wordpress \<Rightarrow> attributes \<Rightarrow> ComputedStyles" where
  "static_styles wp a =
     \<lparr>container_style = php_section_style wp (attributes_with_defaults a),
      title_style = Some (php_title_style wp (attributes_with_defaults a)),
      content_style = php_content_style wp (attributes_with_defaults a)\<rparr>"

text \<open>The array with no key set.\<close>

definition no_attributes :: attributes where
  "no_attributes =
     \<lparr>title_key = None, showTitle_key = None, titleTextColor_key = None,
      titleFontSize_key = None, content_key = None, contentTextColor_key = None,
      contentColor_key = None, contentFontSize_key = None, backgroundColor_key = None,
      padding_key = None, alignment_key = None\<rparr>"

definition complete :: "padding_array \<Rightarrow> bool" where
  "complete p = (top_key p \<noteq> None \<and> bottom_key p \<noteq> None \<and> left_key p \<noteq> None \<and> right_key p \<noteq> None)"

text \<open>
  What a control of the settings panel carries: its current value, the bounds of a range
  control (\<open>min\<close>, \<open>max\<close>), and the values that a select control offers.
\<close>

datatype attr_value = Flag bool | Number rat | Text string

fun control_value :: "control \<Rightarrow> attr_value" where
  "control_value (ToggleControl l b) = Flag b"
| "control_value (RangeControl l v lo hi) = Number v"
| "control_value (SelectControl l v os) = Text v"
| "control_value (ColorSetting l v) = Text v"

fun control_bounds :: "control \<Rightarrow> (rat \<times> rat) option" where
  "control_bounds (RangeControl l v lo hi) = Some (lo, hi)"
| "control_bounds c = None"

fun control_options :: "control \<Rightarrow> string list option" where
  "control_options (SelectControl l v os) = Some (map snd os)"
| "control_options c = None"

text \<open>The current value of a field, and the bounds of the range controls for a field.\<close>

fun field_value :: "BlockAttributes \<Rightarrow> field \<Rightarrow> attr_value" where
  "field_value a F_title = Text (title a)"
| "field_value a F_showTitle = Flag (showTitle a)"
| "field_value a F_titleTextColor = Text (titleTextColor a)"
| "field_value a F_titleFontSize = Number (titleFontSize a)"
| "field_value a F_content = Text (content a)"
| "field_value a F_contentTextColor = Text (contentTextColor a)"
| "field_value a F_contentFontSize = Number (contentFontSize a)"
| "field_value a F_backgroundColor = Text (backgroundColor a)"
| "field_value a F_padding_top = Number (top_side (padding a))"
| "field_value a F_padding_bottom = Number (bottom (padding a))"
| "field_value a F_padding_left = Number (left (padding a))"
| "field_value a F_padding_right = Number (right (padding a))"
| "field_value a F_alignment = Text (alignment_str (alignment a))"

definition bounds_for :: "BlockAttributes \<Rightarrow> field \<Rightarrow> (rat \<times> rat) list" where
  "bounds_for a f =
     List.map_filter (\<lambda>(g, c). if g = f then control_bounds c else None) (InspectorControls a)"

text \<open>
  The ranges and the enumeration that section 3 of the specification states for the
  fields: the title's font size in [0.1, 5], the content's in [0.1, 20], a padding side
  in [0, 10]; the content's colour one of black, white and gray in the editor.
\<close>

fun spec_range :: "field \<Rightarrow> (rat \<times> rat) option" where
  "spec_range F_titleFontSize = Some (0.1, 5)"
| "spec_range F_contentFontSize = Some (0.1, 20)"
| "spec_range F_padding_top = Some (0, 10)"
| "spec_range F_padding_bottom = Some (0, 10)"
| "spec_range F_padding_left = Some (0, 10)"
| "spec_range F_padding_right = Some (0, 10)"
| "spec_range f = None"

definition spec_content_colors :: "string list" where
  "spec_content_colors = [''#000000'', ''#ffffff'', ''#808080'']"

text \<open>The kind of a control.\<close>

datatype control_kind = Toggle | Range | Select | Color

fun kind_of :: "control \<Rightarrow> control_kind" where
  "kind_of (ToggleControl l b) = Toggle"
| "kind_of (RangeControl l v lo hi) = Range"
| "kind_of (SelectControl l v os) = Select"
| "kind_of (ColorSetting l v) = Color"

text \<open>
  Using a range control. The control is a component of the host: given its \<open>min\<close> and
  \<open>max\<close> and the number that the user enters, it hands a number to its \<open>onChange\<close>;
  \<open>report min max x\<close> is that number. \<open>range_onChange\<close> is the callback that the source
  gives to the range control of a field, and \<open>use_range_control\<close> is the attribute set
  after the user has entered \<open>x\<close> in the range control that the panel has for the field;
  without such a control nothing changes.
\<close>

fun range_onChange :: "field \<Rightarrow> rat \<Rightarrow> BlockAttributes \<Rightarrow> BlockAttributes" where
  "range_onChange F_titleFontSize v a = onChange_titleFontSize v a"
| "range_onChange F_contentFontSize v a = onChange_contentFontSize v a"
| "range_onChange F_padding_top v a = onChange_padding_top (Some v) a"
| "range_onChange F_padding_bottom v a = onChange_padding_bottom (Some v) a"
| "range_onChange F_padding_left v a = onChange_padding_left (Some v) a"
| "range_onChange F_padding_right v a = onChange_padding_right (Some v) a"
| "range_onChange f v a = a"

definition use_range_control ::
  "(rat \<Rightarrow> rat \<Rightarrow> rat \<Rightarrow> rat) \<Rightarrow> field \<Rightarrow> rat \<Rightarrow> BlockAttributes \<Rightarrow> BlockAttributes" where
  "use_range_control report f x a =
     (case bounds_for a f of
        [] \<Rightarrow> a
      | (lo, hi) # _ \<Rightarrow> range_onChange f (report lo hi x) a)"

section \<open>An example host and example blocks\<close>

text \<open>
  A host to run the two renders on examples. Numbers are printed in decimal: the sign,
  the integer part and, for a number that is not an integer, a point and at most 17
  digits of the fraction. JavaScript and PHP print an integer and a short decimal such
  as 2.5 or 0.1 in this way. The five characters that HTML reserves are replaced by
  their entities, and the wrapper attributes are the class alone.
\<close>

definition digit_char :: "nat \<Rightarrow> char" where
  "digit_char d = ''0123456789'' ! (d mod 10)"

function nat_str :: "nat \<Rightarrow> string" where
  "nat_str n = (if n < 10 then [digit_char n] else nat_str (n div 10) @ [digit_char (n mod 10)])"
  by pat_completeness auto
termination
  by (relation "measure id") auto

declare nat_str.simps [simp del]

fun frac_str :: "nat \<Rightarrow> rat \<Rightarrow> string" where
  "frac_str 0 q = []"
| "frac_str (Suc k) q =
     (if q = 0 then []
      else digit_char (nat \<lfloor>q * 10\<rfloor>) # frac_str k (q * 10 - of_int \<lfloor>q * 10\<rfloor>))"

definition number_str :: "rat \<Rightarrow> string" where
  "number_str q =
     (if q < 0 then ''-'' else [])
     @ nat_str (nat \<lfloor>\<bar>q\<bar>\<rfloor>)
     @ (if \<bar>q\<bar> = of_int \<lfloor>\<bar>q\<bar>\<rfloor> then []
        else ''.'' @ frac_str 17 (\<bar>q\<bar> - of_int \<lfloor>\<bar>q\<bar>\<rfloor>))"

definition specialchar :: "char \<Rightarrow> string" where
  "specialchar c =
     (if c = CHR ''&'' then ''&amp;''
      else if c = CHR ''<'' then ''&lt;''
      else if c = CHR ''>'' then ''&gt;''
      else if c = CHR 0x22 then ''&quot;''
      else if c = CHR 0x27 then ''&#039;''
      else [c])"

definition specialchars :: "string \<Rightarrow> string" where
  "specialchars s = concat (map specialchar s)"

definition example_wp :: wordpress where
  "example_wp =
     \<lparr>strval = number_str, esc_attr = specialchars, esc_html = specialchars,
      get_block_wrapper_attributes = (\<lambda>c. ''class='' @ dquote @ c @ dquote)\<rparr>"

text \<open>
  The range control of the example host hands on the number entered, clamped between
  \<open>min\<close> and \<open>max\<close>, as the range control of the block editor does.
\<close>

definition clamped :: "rat \<Rightarrow> rat \<Rightarrow> rat \<Rightarrow> rat" where
  "clamped lo hi x = max lo (min x hi)"

text \<open>
  A block with the values that render.php takes as defaults, but black content text,
  the first option of the editor's select control.
\<close>

definition example_block :: BlockAttributes where
  "example_block =
     \<lparr>title = ''Block Title'', showTitle = True, titleTextColor = ''#1a202c'',
      titleFontSize = 3, content = ''Add your content here...'',
      contentTextColor = ''#000000'', contentFontSize = 1, backgroundColor = ''#ffffff'',
      padding = \<lparr>top_side = 2, bottom = 2, left = 2, right = 2\<rparr>, alignment = Center\<rparr>"

section \<open>Evaluation lemmas\<close>

lemma floor_rat_numeral: "\<lfloor>numeral a / numeral b :: rat\<rfloor> = numeral a div numeral b"
  using floor_divide_of_int_eq [of "numeral a" "numeral b", where ?'a = rat] by simp

lemma floor_rat_one_numeral: "\<lfloor>1 / numeral b :: rat\<rfloor> = 1 div numeral b"
  using floor_divide_of_int_eq [of 1 "numeral b", where ?'a = rat] by simp

lemma frac_str_numeral:
  "frac_str (numeral k) q =
     (if q = 0 then []
      else digit_char (nat \<lfloor>q * 10\<rfloor>) # frac_str (pred_numeral k) (q * 10 - of_int \<lfloor>q * 10\<rfloor>))"
  by (simp add: numeral_eq_Suc)

lemmas host_eval =
  example_wp_def number_str_def nat_str.simps digit_char_def specialchars_def specialchar_def
  floor_rat_numeral floor_rat_one_numeral frac_str_numeral

lemmas render_eval =
  render_php_def template_def attributes_with_defaults_def nullish_def side_str_def
  php_section_style_def php_title_style_def php_content_style_def section_css_def text_css_def

section \<open>Frame property of the padding callbacks\<close>

text \<open>
  C6. A padding callback changes the side it is for and leaves the other three sides as
  they were: for every attribute set and every value, the new padding has the value on
  the callback's side (0 when the value is undefined) and the old values on the other
  three sides.
\<close>

theorem padding_update_merges:
  "top_side (padding (onChange_padding_top v a)) = nullish v 0
   \<and> bottom (padding (onChange_padding_top v a)) = bottom (padding a)
   \<and> left (padding (onChange_padding_top v a)) = left (padding a)
   \<and> right (padding (onChange_padding_top v a)) = right (padding a)
   \<and> top_side (padding (onChange_padding_bottom v a)) = top_side (padding a)
   \<and> bottom (padding (onChange_padding_bottom v a)) = nullish v 0
   \<and> left (padding (onChange_padding_bottom v a)) = left (padding a)
   \<and> right (padding (onChange_padding_bottom v a)) = right (padding a)
   \<and> top_side (padding (onChange_padding_left v a)) = top_side (padding a)
   \<and> bottom (padding (onChange_padding_left v a)) = bottom (padding a)
   \<and> left (padding (onChange_padding_left v a)) = nullish v 0
   \<and> right (padding (onChange_padding_left v a)) = right (padding a)
   \<and> top_side (padding (onChange_padding_right v a)) = top_side (padding a)
   \<and> bottom (padding (onChange_padding_right v a)) = bottom (padding a)
   \<and> left (padding (onChange_padding_right v a)) = left (padding a)
   \<and> right (padding (onChange_padding_right v a)) = nullish v 0"
  by (simp add: onChange_padding_top_def onChange_padding_bottom_def
      onChange_padding_left_def onChange_padding_right_def)

section \<open>The two renders side by side\<close>

text \<open>
  C1. The claim is that the static render and the preview of the editable render compute
  the same styles. They do not: for the example block, whose content colour is black and
  whose title is shown, the two renders agree on the container and on the title, but the
  static render colours the content #4a5568 where the editor's preview colours it
  #000000.
\<close>

theorem styles_differ_on_content_color:
  \<open>static_styles example_wp (saved_attributes example_block) =
     \<lparr>container_style =
        \<lparr>style_padding = ''2rem 2rem 2rem 2rem'', style_alignItems = ''center'',
         style_backgroundColor = ''#ffffff''\<rparr>,
      title_style = Some \<lparr>style_color = ''#1a202c'', style_fontSize = ''3rem''\<rparr>,
      content_style = \<lparr>style_color = ''#4a5568'', style_fontSize = ''1rem''\<rparr>\<rparr>
   \<and> editable_styles number_str example_block =
     \<lparr>container_style =
        \<lparr>style_padding = ''2rem 2rem 2rem 2rem'', style_alignItems = ''center'',
         style_backgroundColor = ''#ffffff''\<rparr>,
      title_style = Some \<lparr>style_color = ''#1a202c'', style_fontSize = ''3rem''\<rparr>,
      content_style = \<lparr>style_color = ''#000000'', style_fontSize = ''1rem''\<rparr>\<rparr>\<close>
  by (simp add: static_styles_def editable_styles_def Edit_def saved_attributes_def
      example_block_def render_eval host_eval)

text \<open>
  C2. The claim is that the static output has a title element exactly when \<open>showTitle\<close>
  is true. For the example block with \<open>showTitle\<close> false the template still prints the
  heading: the output below is the whole output, and its second line is the \<open>h2\<close>.
\<close>

theorem hidden_title_is_rendered:
  \<open>render_php example_wp (saved_attributes (example_block\<lparr>showTitle := False\<rparr>)) =
     newline
     @ ''<section class="test-block" style="padding: 2rem 2rem 2rem 2rem; background-color: #ffffff; align-items: center;">''
     @ newline
     @ ''    <h2 style="color: #1a202c; font-size: 3rem;">Block Title</h2>''
     @ newline
     @ ''    <p style="color: #4a5568; font-size: 1rem;">Add your content here...</p>''
     @ newline
     @ ''</section>''
   \<and> section_title (preview (Edit number_str (example_block\<lparr>showTitle := False\<rparr>))) = None\<close>
  by (simp add: saved_attributes_def example_block_def render_eval host_eval dquote_def
      newline_def Edit_def)

text \<open>
  C3. The claim is that a \<open>contentTextColor\<close> in the input is the colour of the content
  in the static render. For the input whose only key is \<open>contentTextColor\<close>, set to
  #000000, the template colours the content #4a5568: it reads the key \<open>contentColor\<close>.
\<close>

theorem content_text_color_is_ignored:
  \<open>php_content_style example_wp
     (attributes_with_defaults (no_attributes\<lparr>contentTextColor_key := Some ''#000000''\<rparr>)) =
     \<lparr>style_color = ''#4a5568'', style_fontSize = ''1rem''\<rparr>
   \<and> php_content_style example_wp
     (attributes_with_defaults (no_attributes\<lparr>contentColor_key := Some ''#000000''\<rparr>)) =
     \<lparr>style_color = ''#000000'', style_fontSize = ''1rem''\<rparr>\<close>
  by (simp add: no_attributes_def render_eval host_eval)

section \<open>Defaults of the template\<close>

text \<open>
  C4, as the claim states it, fails: a padding record that is present is taken as it
  is. For the input whose padding has a bottom, a left and a right side but no top side,
  the top side is still undefined after the defaulting.
\<close>

theorem partial_padding_stays_partial:
  "top_key (padding_var (attributes_with_defaults
     (no_attributes\<lparr>padding_key :=
        Some \<lparr>top_key = None, bottom_key = Some 2, left_key = Some 2, right_key = Some 2\<rparr>\<rparr>)))
   = None"
  by (simp add: attributes_with_defaults_def no_attributes_def nullish_def)

text \<open>
  C4, amended. For every array of attributes, each of the variables \<open>$title\<close>,
  \<open>$show_title\<close>, \<open>$title_color\<close>, \<open>$title_size\<close>, \<open>$content\<close>, \<open>$content_size\<close>,
  \<open>$background_color\<close> and \<open>$alignment\<close> is the value of its attribute when that is
  present and the stated default when it is absent; \<open>$padding\<close> is the padding record
  when one is present and the record with all four sides 2 when none is. So after the
  defaulting every padding side is defined exactly when the padding was absent or came
  with all four sides.
\<close>

theorem defaults_of_absent_attributes:
  "title_var (attributes_with_defaults a)
     = (case title_key a of None \<Rightarrow> ''Block Title'' | Some x \<Rightarrow> x)
   \<and> show_title (attributes_with_defaults a)
     = (case showTitle_key a of None \<Rightarrow> True | Some x \<Rightarrow> x)
   \<and> title_color (attributes_with_defaults a)
     = (case titleTextColor_key a of None \<Rightarrow> ''#1a202c'' | Some x \<Rightarrow> x)
   \<and> title_size (attributes_with_defaults a)
     = (case titleFontSize_key a of None \<Rightarrow> 3 | Some x \<Rightarrow> x)
   \<and> content_var (attributes_with_defaults a)
     = (case content_key a of None \<Rightarrow> ''Add your content here...'' | Some x \<Rightarrow> x)
   \<and> content_size (attributes_with_defaults a)
     = (case contentFontSize_key a of None \<Rightarrow> 1 | Some x \<Rightarrow> x)
   \<and> background_color (attributes_with_defaults a)
     = (case backgroundColor_key a of None \<Rightarrow> ''#ffffff'' | Some x \<Rightarrow> x)
   \<and> alignment_var (attributes_with_defaults a)
     = (case alignment_key a of None \<Rightarrow> ''center'' | Some x \<Rightarrow> x)
   \<and> padding_var (attributes_with_defaults a)
     = (case padding_key a of
          None \<Rightarrow> \<lparr>top_key = Some 2, bottom_key = Some 2, left_key = Some 2, right_key = Some 2\<rparr>
        | Some p \<Rightarrow> p)
   \<and> complete (padding_var (attributes_with_defaults a))
     = (case padding_key a of None \<Rightarrow> True | Some p \<Rightarrow> complete p)"
  by (simp add: attributes_with_defaults_def nullish_def complete_def split: option.split)

theorem defaults_of_absent_attributes_witness:
  "attributes_with_defaults no_attributes =
     \<lparr>title_var = ''Block Title'', show_title = True, title_color = ''#1a202c'',
      title_size = 3, content_var = ''Add your content here...'',
      content_color = ''#4a5568'', content_size = 1, background_color = ''#ffffff'',
      padding_var =
        \<lparr>top_key = Some 2, bottom_key = Some 2, left_key = Some 2, right_key = Some 2\<rparr>,
      alignment_var = ''center''\<rparr>
   \<and> complete (padding_var (attributes_with_defaults no_attributes))"
  using defaults_of_absent_attributes [of no_attributes]
  by (simp add: attributes_with_defaults_def no_attributes_def nullish_def complete_def)

text \<open>
  C7, as the claim states it, fails: the sides that a present padding record lacks do not
  become 2. For the input whose padding has the top side 4 and no other side, the
  template prints the padding \<open>4rem rem rem rem\<close>.
\<close>

theorem missing_sides_are_not_merged:
  "style_padding (php_section_style example_wp (attributes_with_defaults
     (no_attributes\<lparr>padding_key :=
        Some \<lparr>top_key = Some 4, bottom_key = None, left_key = None, right_key = None\<rparr>\<rparr>)))
   = ''4rem rem rem rem''"
  by (simp add: no_attributes_def render_eval host_eval)

text \<open>
  C7, amended. The default of the padding is for the record as a whole. When the input
  has no padding, all four sides are 2 and the template prints the four numbers. When
  the input has a padding, the template takes that record as it is, with no side filled
  in; when the record has all four sides, the template prints those four numbers, in the
  order top, right, bottom, left.
\<close>

theorem padding_default_is_whole_record:
  "(padding_key a = None \<longrightarrow>
      padding_var (attributes_with_defaults a)
        = \<lparr>top_key = Some 2, bottom_key = Some 2, left_key = Some 2, right_key = Some 2\<rparr>
      \<and> style_padding (php_section_style wp (attributes_with_defaults a))
        = esc_attr wp (strval wp 2) @ ''rem '' @ esc_attr wp (strval wp 2) @ ''rem ''
          @ esc_attr wp (strval wp 2) @ ''rem '' @ esc_attr wp (strval wp 2) @ ''rem'')
   \<and> (\<forall>p. padding_key a = Some p \<longrightarrow> padding_var (attributes_with_defaults a) = p)
   \<and> (\<forall>t b l r. padding_key a
          = Some \<lparr>top_key = Some t, bottom_key = Some b, left_key = Some l, right_key = Some r\<rparr>
        \<longrightarrow> style_padding (php_section_style wp (attributes_with_defaults a))
          = esc_attr wp (strval wp t) @ ''rem '' @ esc_attr wp (strval wp r) @ ''rem ''
            @ esc_attr wp (strval wp b) @ ''rem '' @ esc_attr wp (strval wp l) @ ''rem'')"
  by (simp add: attributes_with_defaults_def nullish_def php_section_style_def side_str_def)

theorem padding_default_is_whole_record_witness:
  "style_padding (php_section_style example_wp (attributes_with_defaults no_attributes))
     = ''2rem 2rem 2rem 2rem''
   \<and> style_padding (php_section_style example_wp (attributes_with_defaults
        (no_attributes\<lparr>padding_key :=
           Some \<lparr>top_key = Some 1, bottom_key = Some 3, left_key = Some 4, right_key = Some 2\<rparr>\<rparr>)))
     = ''1rem 2rem 3rem 4rem''"
  using padding_default_is_whole_record [of no_attributes example_wp]
    padding_default_is_whole_record
      [of "no_attributes\<lparr>padding_key :=
           Some \<lparr>top_key = Some 1, bottom_key = Some 3, left_key = Some 4, right_key = Some 2\<rparr>\<rparr>"
          example_wp]
  by (simp add: no_attributes_def host_eval)

section \<open>Assigning numbers through the range controls\<close>

text \<open>
  Example of C6: from the padding with 2 on every side, setting the top side to 4 gives
  the padding with 4 on top and 2 on the other three sides.
\<close>

theorem padding_update_merges_witness:
  "padding (onChange_padding_top (Some 4) example_block)
     = \<lparr>top_side = 4, bottom = 2, left = 2, right = 2\<rparr>
   \<and> padding example_block = \<lparr>top_side = 2, bottom = 2, left = 2, right = 2\<rparr>"
  using padding_update_merges [of "Some 4" example_block]
  by (simp add: onChange_padding_top_def example_block_def nullish_def)

text \<open>
  C5, as the claim states it, fails in its last part: neither render clamps, so a number
  out of range that is in the attributes is rendered out of range. The static render
  prints a title font size of 999 as \<open>999rem\<close>, and the editor's preview prints a top
  padding of -5 as \<open>-5rem\<close>.
\<close>

theorem out_of_range_value_is_rendered:
  "style_fontSize (php_title_style example_wp (attributes_with_defaults
       (no_attributes\<lparr>titleFontSize_key := Some 999\<rparr>))) = ''999rem''
   \<and> style_padding (section_style (preview (Edit number_str
       (example_block\<lparr>padding := \<lparr>top_side = - 5, bottom = 2, left = 2, right = 2\<rparr>\<rparr>))))
     = ''-5rem 2rem 2rem 2rem''"
  by (simp add: no_attributes_def example_block_def Edit_def render_eval host_eval)

text \<open>
  C5, amended. A number assigned through a range control of the panel is within its
  stated range, given that a range control hands on a number between its \<open>min\<close> and its
  \<open>max\<close>: the panel's control for the title's font size (there while the title is shown)
  has the bounds 0.1 and 5, the one for the content's font size 0.1 and 20, the ones for
  the padding sides 0 and 10, and each callback stores the number handed to it in its
  field. With the title hidden no control assigns the title's font size. The renders do
  not clamp: the editor's preview and the static render print the font sizes and the
  padding sides that the attributes hold, as they are.
\<close>

theorem range_controls_assign_within_range:
  assumes report: "\<And>lo hi x. lo \<le> hi \<Longrightarrow> lo \<le> report lo hi x \<and> report lo hi x \<le> hi"
  shows "(showTitle a \<longrightarrow>
        titleFontSize (use_range_control report F_titleFontSize x a) = report 0.1 5 x
        \<and> 0.1 \<le> titleFontSize (use_range_control report F_titleFontSize x a)
        \<and> titleFontSize (use_range_control report F_titleFontSize x a) \<le> 5)
   \<and> (\<not> showTitle a \<longrightarrow> use_range_control report F_titleFontSize x a = a)
   \<and> contentFontSize (use_range_control report F_contentFontSize x a) = report 0.1 20 x
   \<and> 0.1 \<le> contentFontSize (use_range_control report F_contentFontSize x a)
   \<and> contentFontSize (use_range_control report F_contentFontSize x a) \<le> 20
   \<and> top_side (padding (use_range_control report F_padding_top x a)) = report 0 10 x
   \<and> 0 \<le> top_side (padding (use_range_control report F_padding_top x a))
   \<and> top_side (padding (use_range_control report F_padding_top x a)) \<le> 10
   \<and> bottom (padding (use_range_control report F_padding_bottom x a)) = report 0 10 x
   \<and> 0 \<le> bottom (padding (use_range_control report F_padding_bottom x a))
   \<and> bottom (padding (use_range_control report F_padding_bottom x a)) \<le> 10
   \<and> left (padding (use_range_control report F_padding_left x a)) = report 0 10 x
   \<and> 0 \<le> left (padding (use_range_control report F_padding_left x a))
   \<and> left (padding (use_range_control report F_padding_left x a)) \<le> 10
   \<and> right (padding (use_range_control report F_padding_right x a)) = report 0 10 x
   \<and> 0 \<le> right (padding (use_range_control report F_padding_right x a))
   \<and> right (padding (use_range_control report F_padding_right x a)) \<le> 10
   \<and> map_option (\<lambda>t. style_fontSize (rich_style t)) (section_title (preview (Edit toString a)))
     = (if showTitle a then Some (toString (titleFontSize a) @ ''rem'') else None)
   \<and> style_fontSize (rich_style (section_content (preview (Edit toString a))))
     = toString (contentFontSize a) @ ''rem''
   \<and> style_padding (section_style (preview (Edit toString a)))
     = toString (top_side (padding a)) @ ''rem '' @ toString (right (padding a)) @ ''rem ''
       @ toString (bottom (padding a)) @ ''rem '' @ toString (left (padding a)) @ ''rem''
   \<and> style_fontSize (php_title_style wp (attributes_with_defaults (saved_attributes a)))
     = esc_attr wp (strval wp (titleFontSize a)) @ ''rem''
   \<and> style_fontSize (php_content_style wp (attributes_with_defaults (saved_attributes a)))
     = esc_attr wp (strval wp (contentFontSize a)) @ ''rem''
   \<and> style_padding (php_section_style wp (attributes_with_defaults (saved_attributes a)))
     = esc_attr wp (strval wp (top_side (padding a))) @ ''rem ''
       @ esc_attr wp (strval wp (right (padding a))) @ ''rem ''
       @ esc_attr wp (strval wp (bottom (padding a))) @ ''rem ''
       @ esc_attr wp (strval wp (left (padding a))) @ ''rem''"
proof -
  have title_bounds: "(0.1::rat) \<le> 5" and content_bounds: "(0.1::rat) \<le> 20"
    and side_bounds: "(0::rat) \<le> 10"
    by simp_all
  note r1 = report [OF title_bounds, of x] and r2 = report [OF content_bounds, of x]
    and r3 = report [OF side_bounds, of x]
  have shown: "showTitle a \<longrightarrow>
        titleFontSize (use_range_control report F_titleFontSize x a) = report 0.1 5 x
        \<and> 0.1 \<le> titleFontSize (use_range_control report F_titleFontSize x a)
        \<and> titleFontSize (use_range_control report F_titleFontSize x a) \<le> 5"
    using r1
    by (simp add: use_range_control_def bounds_for_def InspectorControls_def
        onChange_titleFontSize_def)
  have hidden: "\<not> showTitle a \<longrightarrow> use_range_control report F_titleFontSize x a = a"
    by (simp add: use_range_control_def bounds_for_def InspectorControls_def)
  have content_size:
    "contentFontSize (use_range_control report F_contentFontSize x a) = report 0.1 20 x
     \<and> 0.1 \<le> contentFontSize (use_range_control report F_contentFontSize x a)
     \<and> contentFontSize (use_range_control report F_contentFontSize x a) \<le> 20"
    using r2
    by (simp add: use_range_control_def bounds_for_def InspectorControls_def
        onChange_contentFontSize_def)
  have top: "top_side (padding (use_range_control report F_padding_top x a)) = report 0 10 x
     \<and> 0 \<le> top_side (padding (use_range_control report F_padding_top x a))
     \<and> top_side (padding (use_range_control report F_padding_top x a)) \<le> 10"
    using r3
    by (simp add: use_range_control_def bounds_for_def InspectorControls_def
        onChange_padding_top_def nullish_def)
  have bot: "bottom (padding (use_range_control report F_padding_bottom x a)) = report 0 10 x
     \<and> 0 \<le> bottom (padding (use_range_control report F_padding_bottom x a))
     \<and> bottom (padding (use_range_control report F_padding_bottom x a)) \<le> 10"
    using r3
    by (simp add: use_range_control_def bounds_for_def InspectorControls_def
        onChange_padding_bottom_def nullish_def)
  have lft: "left (padding (use_range_control report F_padding_left x a)) = report 0 10 x
     \<and> 0 \<le> left (padding (use_range_control report F_padding_left x a))
     \<and> left (padding (use_range_control report F_padding_left x a)) \<le> 10"
    using r3
    by (simp add: use_range_control_def bounds_for_def InspectorControls_def
        onChange_padding_left_def nullish_def)
  have rgt: "right (padding (use_range_control report F_padding_right x a)) = report 0 10 x
     \<and> 0 \<le> right (padding (use_range_control report F_padding_right x a))
     \<and> right (padding (use_range_control report F_padding_right x a)) \<le> 10"
    using r3
    by (simp add: use_range_control_def bounds_for_def InspectorControls_def
        onChange_padding_right_def nullish_def)
  have editor:
    "map_option (\<lambda>t. style_fontSize (rich_style t)) (section_title (preview (Edit toString a)))
       = (if showTitle a then Some (toString (titleFontSize a) @ ''rem'') else None)
     \<and> style_fontSize (rich_style (section_content (preview (Edit toString a))))
       = toString (contentFontSize a) @ ''rem''
     \<and> style_padding (section_style (preview (Edit toString a)))
       = toString (top_side (padding a)) @ ''rem '' @ toString (right (padding a)) @ ''rem ''
         @ toString (bottom (padding a)) @ ''rem '' @ toString (left (padding a)) @ ''rem''"
    by (simp add: Edit_def)
  have static:
    "style_fontSize (php_title_style wp (attributes_with_defaults (saved_attributes a)))
       = esc_attr wp (strval wp (titleFontSize a)) @ ''rem''
     \<and> style_fontSize (php_content_style wp (attributes_with_defaults (saved_attributes a)))
       = esc_attr wp (strval wp (contentFontSize a)) @ ''rem''
     \<and> style_padding (php_section_style wp (attributes_with_defaults (saved_attributes a)))
       = esc_attr wp (strval wp (top_side (padding a))) @ ''rem ''
         @ esc_attr wp (strval wp (right (padding a))) @ ''rem ''
         @ esc_attr wp (strval wp (bottom (padding a))) @ ''rem ''
         @ esc_attr wp (strval wp (left (padding a))) @ ''rem''"
    by (simp add: saved_attributes_def attributes_with_defaults_def nullish_def side_str_def
        php_section_style_def php_title_style_def php_content_style_def)
  from shown hidden content_size top bot lft rgt editor static show ?thesis by blast
qed

theorem range_controls_assign_within_range_witness:
  "titleFontSize (use_range_control clamped F_titleFontSize 999 example_block) = 5
   \<and> top_side (padding (use_range_control clamped F_padding_top (- 5) example_block)) = 0
   \<and> contentFontSize (use_range_control clamped F_contentFontSize 2.5 example_block) = 2.5
   \<and> showTitle example_block"
proof -
  have report: "\<And>lo hi x. lo \<le> hi \<Longrightarrow> lo \<le> clamped lo hi x \<and> clamped lo hi x \<le> hi"
    by (simp add: clamped_def)
  have shown: "showTitle example_block"
    by (simp add: example_block_def)
  have clamps: "clamped 0.1 5 999 = 5 \<and> clamped 0 10 (- 5) = 0 \<and> clamped 0.1 20 2.5 = 2.5"
    by (simp add: clamped_def)
  from range_controls_assign_within_range [OF report, where a = example_block and x = 999]
    range_controls_assign_within_range [OF report, where a = example_block and x = "- 5"]
    range_controls_assign_within_range [OF report, where a = example_block and x = "2.5"]
    shown clamps
  show ?thesis by simp
qed

section \<open>The settings panel\<close>

text \<open>
  C9, as the claim states it, fails: the panel has no control for the title, the content
  or the alignment, and the control of the title's font size is there only while the
  title is shown. For the example block with the title hidden these are the fields of
  the panel's controls, in order.
\<close>

theorem panel_lacks_controls:
  "map fst (inspector (Edit number_str (example_block\<lparr>showTitle := False\<rparr>)))
     = [F_showTitle, F_contentFontSize, F_contentTextColor, F_padding_top,
        F_padding_bottom, F_padding_left, F_padding_right, F_backgroundColor,
        F_titleTextColor, F_contentTextColor]
   \<and> F_alignment \<notin> set (map fst (inspector (Edit number_str example_block)))"
  by (simp add: Edit_def InspectorControls_def example_block_def)

text \<open>
  C9, amended. For every attribute set the panel holds these controls, in this order: a
  toggle for \<open>showTitle\<close>; a range control for the title's font size, only when
  \<open>showTitle\<close> is true; a range control for the content's font size; a select control for
  the content's colour; a range control for each padding side; colour settings for the
  background colour, the title's colour and the content's colour. Every control carries
  the current value of its field, every range control the range stated for its field,
  and the select control the three stated colours. The panel has no control for the
  title, the content (both are edited in the preview) or the alignment.
\<close>

theorem panel_controls:
  "map (\<lambda>(f, c). (f, kind_of c)) (inspector (Edit toString a))
     = [(F_showTitle, Toggle)]
       @ (if showTitle a then [(F_titleFontSize, Range)] else [])
       @ [(F_contentFontSize, Range), (F_contentTextColor, Select),
          (F_padding_top, Range), (F_padding_bottom, Range),
          (F_padding_left, Range), (F_padding_right, Range),
          (F_backgroundColor, Color), (F_titleTextColor, Color),
          (F_contentTextColor, Color)]
   \<and> (\<forall>(f, c) \<in> set (inspector (Edit toString a)).
         control_value c = field_value a f)
   \<and> (\<forall>(f, c) \<in> set (inspector (Edit toString a)).
         control_bounds c = (if kind_of c = Range then spec_range f else None))
   \<and> (\<forall>(f, c) \<in> set (inspector (Edit toString a)).
         control_options c
           = (if kind_of c = Select then Some spec_content_colors else None))"
  by (auto simp add: Edit_def InspectorControls_def spec_content_colors_def)

theorem panel_controls_witness:
  "map (\<lambda>(f, c). (f, kind_of c)) (inspector (Edit number_str example_block))
     = [(F_showTitle, Toggle), (F_titleFontSize, Range), (F_contentFontSize, Range),
        (F_contentTextColor, Select), (F_padding_top, Range), (F_padding_bottom, Range),
        (F_padding_left, Range), (F_padding_right, Range), (F_backgroundColor, Color),
        (F_titleTextColor, Color), (F_contentTextColor, Color)]
   \<and> (F_contentTextColor, SelectControl ''Content Text Color'' ''#000000''
         [(''Black'', ''#000000''), (''White'', ''#ffffff''), (''Gray'', ''#808080'')])
        \<in> set (inspector (Edit number_str example_block))
   \<and> control_options (SelectControl ''Content Text Color'' ''#000000''
         [(''Black'', ''#000000''), (''White'', ''#ffffff''), (''Gray'', ''#808080'')])
        = Some spec_content_colors
   \<and> (F_contentFontSize, RangeControl ''Content Font Size'' 1 0.1 20)
        \<in> set (inspector (Edit number_str example_block))
   \<and> control_value (RangeControl ''Content Font Size'' 1 0.1 20)
        = field_value example_block F_contentFontSize
   \<and> control_bounds (RangeControl ''Content Font Size'' 1 0.1 20)
        = spec_range F_contentFontSize"
  using panel_controls [of number_str example_block]
  by (auto simp add: Edit_def InspectorControls_def example_block_def
      spec_content_colors_def)

section \<open>The style of the container\<close>

text \<open>
  C8. For every attribute set both renders give the container the padding
  \<open><top>rem <right>rem <bottom>rem <left>rem\<close>, the background colour and the alignment
  as \<open>align-items\<close>. The editor's preview holds the three values as they are. The
  template prints each value through \<open>esc_attr\<close>, at the head of its output; where
  \<open>esc_attr\<close> leaves the values as they are (it does so for a number, a hex colour and an
  alignment) and the two runtimes print the numbers alike, the container styles of the two
  renders are equal.
\<close>

theorem container_style_of_both_renders:
  "section_style (preview (Edit toString A))
     = \<lparr>style_padding =
          toString (top_side (padding A)) @ ''rem '' @ toString (right (padding A)) @ ''rem ''
          @ toString (bottom (padding A)) @ ''rem '' @ toString (left (padding A)) @ ''rem'',
        style_alignItems = alignment_str (alignment A),
        style_backgroundColor = backgroundColor A\<rparr>
   \<and> php_section_style wp (attributes_with_defaults (saved_attributes A))
     = \<lparr>style_padding =
          esc_attr wp (strval wp (top_side (padding A))) @ ''rem ''
          @ esc_attr wp (strval wp (right (padding A))) @ ''rem ''
          @ esc_attr wp (strval wp (bottom (padding A))) @ ''rem ''
          @ esc_attr wp (strval wp (left (padding A))) @ ''rem'',
        style_alignItems = esc_attr wp (alignment_str (alignment A)),
        style_backgroundColor = esc_attr wp (backgroundColor A)\<rparr>
   \<and> (\<exists>rest. render_php wp (saved_attributes A)
         = newline @ ''<section '' @ get_block_wrapper_attributes wp ''test-block''
           @ '' style='' @ dquote @ ''padding: ''
           @ esc_attr wp (strval wp (top_side (padding A))) @ ''rem ''
           @ esc_attr wp (strval wp (right (padding A))) @ ''rem ''
           @ esc_attr wp (strval wp (bottom (padding A))) @ ''rem ''
           @ esc_attr wp (strval wp (left (padding A))) @ ''rem; background-color: ''
           @ esc_attr wp (backgroundColor A) @ ''; align-items: ''
           @ esc_attr wp (alignment_str (alignment A)) @ '';'' @ dquote @ ''>'' @ rest)
   \<and> (strval wp = toString
        \<and> (\<forall>s \<in> {toString (top_side (padding A)), toString (right (padding A)),
                   toString (bottom (padding A)), toString (left (padding A)),
                   backgroundColor A, alignment_str (alignment A)}. esc_attr wp s = s)
        \<longrightarrow> container_style (static_styles wp (saved_attributes A))
            = container_style (editable_styles toString A))"
proof -
  have editor: "section_style (preview (Edit toString A))
     = \<lparr>style_padding =
          toString (top_side (padding A)) @ ''rem '' @ toString (right (padding A)) @ ''rem ''
          @ toString (bottom (padding A)) @ ''rem '' @ toString (left (padding A)) @ ''rem'',
        style_alignItems = alignment_str (alignment A),
        style_backgroundColor = backgroundColor A\<rparr>"
    by (simp add: Edit_def)
  have static: "php_section_style wp (attributes_with_defaults (saved_attributes A))
     = \<lparr>style_padding =
          esc_attr wp (strval wp (top_side (padding A))) @ ''rem ''
          @ esc_attr wp (strval wp (right (padding A))) @ ''rem ''
          @ esc_attr wp (strval wp (bottom (padding A))) @ ''rem ''
          @ esc_attr wp (strval wp (left (padding A))) @ ''rem'',
        style_alignItems = esc_attr wp (alignment_str (alignment A)),
        style_backgroundColor = esc_attr wp (backgroundColor A)\<rparr>"
    by (simp add: php_section_style_def attributes_with_defaults_def saved_attributes_def
        nullish_def side_str_def)
  have printed: "\<exists>rest. render_php wp (saved_attributes A)
         = newline @ ''<section '' @ get_block_wrapper_attributes wp ''test-block''
           @ '' style='' @ dquote @ ''padding: ''
           @ esc_attr wp (strval wp (top_side (padding A))) @ ''rem ''
           @ esc_attr wp (strval wp (right (padding A))) @ ''rem ''
           @ esc_attr wp (strval wp (bottom (padding A))) @ ''rem ''
           @ esc_attr wp (strval wp (left (padding A))) @ ''rem; background-color: ''
           @ esc_attr wp (backgroundColor A) @ ''; align-items: ''
           @ esc_attr wp (alignment_str (alignment A)) @ '';'' @ dquote @ ''>'' @ rest"
    unfolding render_php_def template_def section_css_def static
    by simp
  have equal: "strval wp = toString
        \<and> (\<forall>s \<in> {toString (top_side (padding A)), toString (right (padding A)),
                   toString (bottom (padding A)), toString (left (padding A)),
                   backgroundColor A, alignment_str (alignment A)}. esc_attr wp s = s)
        \<longrightarrow> container_style (static_styles wp (saved_attributes A))
            = container_style (editable_styles toString A)"
    by (auto simp add: static_styles_def editable_styles_def static editor)
  from editor static printed equal show ?thesis by blast
qed

theorem container_style_of_both_renders_witness:
  "container_style (static_styles example_wp
       (saved_attributes (example_block\<lparr>padding :=
          \<lparr>top_side = 1, bottom = 0.5, left = 2.5, right = 10\<rparr>, alignment := Left\<rparr>)))
     = \<lparr>style_padding = ''1rem 10rem 0.5rem 2.5rem'', style_alignItems = ''left'',
        style_backgroundColor = ''#ffffff''\<rparr>
   \<and> container_style (editable_styles number_str
       (example_block\<lparr>padding :=
          \<lparr>top_side = 1, bottom = 0.5, left = 2.5, right = 10\<rparr>, alignment := Left\<rparr>))
     = \<lparr>style_padding = ''1rem 10rem 0.5rem 2.5rem'', style_alignItems = ''left'',
        style_backgroundColor = ''#ffffff''\<rparr>"
  using container_style_of_both_renders
    [of number_str
        "example_block\<lparr>padding :=
           \<lparr>top_side = 1, bottom = 0.5, left = 2.5, right = 10\<rparr>, alignment := Left\<rparr>"
        example_wp]
  by (simp add: static_styles_def editable_styles_def example_block_def host_eval)

section \<open>Escaping in the static output\<close>

lemma specialchar_safe:
  "set (specialchar c) \<inter> {CHR ''<'', CHR ''>'', CHR 0x22} = {}"
  by (simp add: specialchar_def)

lemma specialchars_safe:
  "set (specialchars s) \<inter> {CHR ''<'', CHR ''>'', CHR 0x22} = {}"
  using specialchar_safe by (induction s) (auto simp add: specialchars_def)

text \<open>
  C10. The template passes the title and the content through \<open>esc_html\<close> and every value
  of a style attribute through \<open>esc_attr\<close>: the first equation is the template's output
  in full. So, for a host whose \<open>esc_attr\<close> returns text free of \<open><\<close>, \<open>>\<close> and the
  double quote, and whose \<open>esc_html\<close> and wrapper attributes are free of \<open><\<close> and \<open>>\<close>, no
  attribute value adds markup: whatever the attributes are, the output has the six \<open><\<close>
  and the six \<open>>\<close> of the template's own tags, and no style attribute has a double quote
  inside.
\<close>

theorem static_output_is_escaped:
  assumes attr: "\<And>s. set (esc_attr wp s) \<inter> {CHR ''<'', CHR ''>'', CHR 0x22} = {}"
    and html: "\<And>s. set (esc_html wp s) \<inter> {CHR ''<'', CHR ''>''} = {}"
    and wrapper: "set (get_block_wrapper_attributes wp ''test-block'')
                    \<inter> {CHR ''<'', CHR ''>''} = {}"
  shows "render_php wp a
     = newline @ ''<section '' @ get_block_wrapper_attributes wp ''test-block''
       @ '' style='' @ dquote @ ''padding: ''
       @ esc_attr wp (side_str wp (top_key (padding_var (attributes_with_defaults a))))
       @ ''rem ''
       @ esc_attr wp (side_str wp (right_key (padding_var (attributes_with_defaults a))))
       @ ''rem ''
       @ esc_attr wp (side_str wp (bottom_key (padding_var (attributes_with_defaults a))))
       @ ''rem ''
       @ esc_attr wp (side_str wp (left_key (padding_var (attributes_with_defaults a))))
       @ ''rem; background-color: ''
       @ esc_attr wp (background_color (attributes_with_defaults a))
       @ ''; align-items: '' @ esc_attr wp (alignment_var (attributes_with_defaults a))
       @ '';'' @ dquote @ ''>'' @ newline
       @ ''    <h2 style='' @ dquote @ ''color: ''
       @ esc_attr wp (title_color (attributes_with_defaults a)) @ ''; font-size: ''
       @ esc_attr wp (strval wp (title_size (attributes_with_defaults a))) @ ''rem;''
       @ dquote @ ''>'' @ esc_html wp (title_var (attributes_with_defaults a))
       @ ''</h2>'' @ newline
       @ ''    <p style='' @ dquote @ ''color: ''
       @ esc_attr wp (content_color (attributes_with_defaults a)) @ ''; font-size: ''
       @ esc_attr wp (strval wp (content_size (attributes_with_defaults a))) @ ''rem;''
       @ dquote @ ''>'' @ esc_html wp (content_var (attributes_with_defaults a))
       @ ''</p>'' @ newline @ ''</section>''
   \<and> count_list (render_php wp a) (CHR ''<'') = 6
   \<and> count_list (render_php wp a) (CHR ''>'') = 6
   \<and> CHR 0x22 \<notin> set (section_css (php_section_style wp (attributes_with_defaults a)))
   \<and> CHR 0x22 \<notin> set (text_css (php_title_style wp (attributes_with_defaults a)))
   \<and> CHR 0x22 \<notin> set (text_css (php_content_style wp (attributes_with_defaults a)))"
proof -
  have a0: "\<And>s. count_list (esc_attr wp s) (CHR ''<'') = 0"
    and a1: "\<And>s. count_list (esc_attr wp s) (CHR ''>'') = 0"
    and a2: "\<And>s. CHR 0x22 \<notin> set (esc_attr wp s)"
    using attr by (simp_all add: count_list_0_iff)
  have h0: "\<And>s. count_list (esc_html wp s) (CHR ''<'') = 0"
    and h1: "\<And>s. count_list (esc_html wp s) (CHR ''>'') = 0"
    using html by (simp_all add: count_list_0_iff)
  have w0: "count_list (get_block_wrapper_attributes wp ''test-block'') (CHR ''<'') = 0"
    and w1: "count_list (get_block_wrapper_attributes wp ''test-block'') (CHR ''>'') = 0"
    using wrapper by (simp_all add: count_list_0_iff)
  have flat: "render_php wp a
     = newline @ ''<section '' @ get_block_wrapper_attributes wp ''test-block''
       @ '' style='' @ dquote @ ''padding: ''
       @ esc_attr wp (side_str wp (top_key (padding_var (attributes_with_defaults a))))
       @ ''rem ''
       @ esc_attr wp (side_str wp (right_key (padding_var (attributes_with_defaults a))))
       @ ''rem ''
       @ esc_attr wp (side_str wp (bottom_key (padding_var (attributes_with_defaults a))))
       @ ''rem ''
       @ esc_attr wp (side_str wp (left_key (padding_var (attributes_with_defaults a))))
       @ ''rem; background-color: ''
       @ esc_attr wp (background_color (attributes_with_defaults a))
       @ ''; align-items: '' @ esc_attr wp (alignment_var (attributes_with_defaults a))
       @ '';'' @ dquote @ ''>'' @ newline
       @ ''    <h2 style='' @ dquote @ ''color: ''
       @ esc_attr wp (title_color (attributes_with_defaults a)) @ ''; font-size: ''
       @ esc_attr wp (strval wp (title_size (attributes_with_defaults a))) @ ''rem;''
       @ dquote @ ''>'' @ esc_html wp (title_var (attributes_with_defaults a))
       @ ''</h2>'' @ newline
       @ ''    <p style='' @ dquote @ ''color: ''
       @ esc_attr wp (content_color (attributes_with_defaults a)) @ ''; font-size: ''
       @ esc_attr wp (strval wp (content_size (attributes_with_defaults a))) @ ''rem;''
       @ dquote @ ''>'' @ esc_html wp (content_var (attributes_with_defaults a))
       @ ''</p>'' @ newline @ ''</section>''"
    by (simp add: render_php_def template_def section_css_def text_css_def
        php_section_style_def php_title_style_def php_content_style_def)
  have lt: "count_list (render_php wp a) (CHR ''<'') = 6"
    unfolding flat by (simp add: a0 h0 w0 dquote_def newline_def)
  have gt: "count_list (render_php wp a) (CHR ''>'') = 6"
    unfolding flat by (simp add: a1 h1 w1 dquote_def newline_def)
  have q1: "CHR 0x22 \<notin> set (section_css (php_section_style wp (attributes_with_defaults a)))"
    by (simp add: section_css_def php_section_style_def a2)
  have q2: "CHR 0x22 \<notin> set (text_css (php_title_style wp (attributes_with_defaults a)))"
    by (simp add: text_css_def php_title_style_def a2)
  have q3: "CHR 0x22 \<notin> set (text_css (php_content_style wp (attributes_with_defaults a)))"
    by (simp add: text_css_def php_content_style_def a2)
  from flat lt gt q1 q2 q3 show ?thesis by blast
qed

theorem static_output_is_escaped_witness:
  \<open>count_list (render_php example_wp
       (no_attributes\<lparr>title_key := Some ''<script>'',
                       backgroundColor_key := Some ''"><b>''\<rparr>)) (CHR ''<'') = 6
   \<and> esc_html example_wp ''<script>'' = ''&lt;script&gt;''
   \<and> section_css (php_section_style example_wp (attributes_with_defaults
       (no_attributes\<lparr>title_key := Some ''<script>'',
                       backgroundColor_key := Some ''"><b>''\<rparr>)))
     = ''padding: 2rem 2rem 2rem 2rem; background-color: &quot;&gt;&lt;b&gt;; align-items: center;''\<close>
proof -
  have attr: "\<And>s. set (esc_attr example_wp s) \<inter> {CHR ''<'', CHR ''>'', CHR 0x22} = {}"
    using specialchars_safe by (simp add: example_wp_def)
  have html: "\<And>s. set (esc_html example_wp s) \<inter> {CHR ''<'', CHR ''>''} = {}"
    using specialchars_safe by (auto simp add: example_wp_def)
  have wrapper: "set (get_block_wrapper_attributes example_wp ''test-block'')
                   \<inter> {CHR ''<'', CHR ''>''} = {}"
    by (simp add: example_wp_def dquote_def)
  have css: \<open>section_css (php_section_style example_wp (attributes_with_defaults
       (no_attributes\<lparr>title_key := Some ''<script>'',
                       backgroundColor_key := Some ''"><b>''\<rparr>)))
     = ''padding: 2rem 2rem 2rem 2rem; background-color: &quot;&gt;&lt;b&gt;; align-items: center;''\<close>
    by (simp add: no_attributes_def render_eval host_eval)
  have esc: "esc_html example_wp ''<script>'' = ''&lt;script&gt;''"
    by (simp add: host_eval)
  from static_output_is_escaped [OF attr html wrapper] css esc show ?thesis by blast
qed

end
